theory Spec2Isabelle
  imports Main "HOL-Library.Word"
begin

section \<open>The consensus gossip synchronizer (package consensus, syncer.go)\<close>

text \<open>
  A shallow embedding of the peer task and the synchronizer. Everything runs under the
  single mutex the synchronizer shares with the engine, so every method body is one
  atomic step on the state. External collaborators (engine, block manager, fast-sync
  manager, codec, network handler) are interfaces in the source; here an interface is
  a record of its operations and the calls that leave the synchronizer are listed as
  effects, in the order the source makes them.
\<close>

subsection \<open>Basic types\<close>

type_synonym bytes = "8 word list"

text \<open>Go's \<open>int64\<close> and \<open>int32\<close>: addition and subtraction wrap, the order is the
  signed one (\<open><s\<close>, \<open>\<le>s\<close>).\<close>

type_synonym int64 = "64 word"
type_synonym int32 = "32 word"

text \<open>\<open>type step int\<close>. The step constants are declared outside the given sources;
  the functions below take the three they use as a parameter.\<close>

type_synonym step = int

record steps =
  stepPropose :: step
  stepPrecommitWait :: step
  stepCommit :: step

type_synonym PeerID = bytes

text \<open>An address of a \<open>peerRoundState\<close> object on the Go heap.\<close>

type_synonym addr = nat

text \<open>Values the synchronizer only passes on and never inspects.\<close>

datatype error = Error string
datatype Block = Block int64
datatype BlockResult = BlockResult Block
datatype canceler = Canceler nat
datatype voteMessage = Vote nat
type_synonym voteList = "voteMessage list"

datatype ProtocolInfo = protoBlockPart | protoRoundState | protoVoteList | protoOther nat

subsection \<open>Bit mask\<close>

text \<open>
  Modelled from the spec: the type \<open>bitArray\<close> and its methods are declared outside
  the given sources. The spec: a fixed-length bit vector of size N with \<open>set(i)\<close>,
  \<open>get(i)\<close>, \<open>copy()\<close>, \<open>flip()\<close> (in place), \<open>and(other)\<close> (in place, assumes equal
  size) and \<open>pick_random()\<close>, which returns a uniformly chosen index whose bit is 1, or
  -1 if there is none. The random choice is the parameter \<open>rnd\<close>: every set bit is the
  result for some \<open>rnd\<close>. On masks of unequal size \<open>and\<close> keeps the shorter length.
\<close>

type_synonym bitArray = "bool list"

definition newBitArray :: "int \<Rightarrow> bitArray" where
  "newBitArray n = replicate (nat n) False"

definition bitArray_Copy :: "bitArray \<Rightarrow> bitArray" where
  "bitArray_Copy ba = ba"

definition bitArray_Flip :: "bitArray \<Rightarrow> bitArray" where
  "bitArray_Flip ba = map Not ba"

definition bitArray_AssignAnd :: "bitArray \<Rightarrow> bitArray \<Rightarrow> bitArray" where
  "bitArray_AssignAnd ba ba2 = map (\<lambda>(x, y). x \<and> y) (zip ba ba2)"

definition bitArray_Set :: "bitArray \<Rightarrow> int \<Rightarrow> bitArray" where
  "bitArray_Set ba idx =
     (if 0 \<le> idx \<and> nat idx < length ba then ba[nat idx := True] else ba)"

definition bitArray_Get :: "bitArray \<Rightarrow> int \<Rightarrow> bool" where
  "bitArray_Get ba idx = (0 \<le> idx \<and> nat idx < length ba \<and> ba ! nat idx)"

definition ones :: "bitArray \<Rightarrow> nat list" where
  "ones ba = filter (\<lambda>i. ba ! i) [0..<length ba]"

definition bitArray_PickRandom :: "nat \<Rightarrow> bitArray \<Rightarrow> int" where
  "bitArray_PickRandom rnd ba =
     (if ones ba = [] then - 1 else int (ones ba ! (rnd mod length (ones ba))))"

subsection \<open>Messages and the peer round state\<close>

text \<open>\<open>uint16(idx)\<close>: the conversion keeps the low 16 bits.\<close>

definition uint16 :: "int \<Rightarrow> int" where
  "uint16 x = x mod 65536"

text \<open>
  Modelled from the spec: the message structs are declared outside the given sources.
  The spec: a BlockPart message is \<open>{height:int64, index:uint16, payload:bytes}\<close> (the
  fields \<open>Height\<close>, \<open>Index\<close>, \<open>BlockPart\<close> that \<open>doSync\<close> sets), a RoundState message
  is the sender's peer round state, a VoteList message is a sequence of votes.
\<close>

record blockPartMessage =
  Height :: int64
  Index :: int
  BlockPart :: bytes

text \<open>
  Modelled from the spec: the struct \<open>peerRoundState\<close> is declared outside the given
  sources. The spec: height, round, sync, a nullable block-parts mask, and the masks of
  known prevotes and precommits.
\<close>

record peerRoundState =
  Height :: int64
  Round :: int32
  Sync :: bool
  BlockPartsMask :: "bitArray option"
  PrevotesMask :: bitArray
  PrecommitsMask :: bitArray

datatype message =
    BlockPartMessage blockPartMessage
  | RoundStateMessage peerRoundState
  | VoteListMessage voteList
  | OtherMessage bytes

text \<open>The interface \<open>PartSet\<close>, as far as \<open>doSync\<close> uses it; \<open>GetPart\<close> gives the
  bytes of the part.\<close>

record PartSet =
  Parts :: int
  GetMask :: bitArray
  GetPart :: "int \<Rightarrow> bytes"

subsection \<open>Interfaces: engine, block manager, fast-sync manager, codec\<close>

text \<open>The interface \<open>Engine\<close> over an engine state \<open>'e\<close>. The three \<open>Receive\<close> methods
  change the engine and so return its new state.\<close>

record 'e Engine =
  GetCommitBlockParts :: "'e \<Rightarrow> int64 \<Rightarrow> PartSet"
  GetCommitPrecommits :: "'e \<Rightarrow> int64 \<Rightarrow> voteList"
  GetPrecommits :: "'e \<Rightarrow> int32 \<Rightarrow> voteList"
  GetVotes :: "'e \<Rightarrow> int32 \<Rightarrow> bitArray \<Rightarrow> bitArray \<Rightarrow> voteList"
  GetRoundState :: "'e \<Rightarrow> peerRoundState"
  Height :: "'e \<Rightarrow> int64"
  Round :: "'e \<Rightarrow> int32"
  Step :: "'e \<Rightarrow> step"
  ReceiveBlockPartMessage :: "'e \<Rightarrow> blockPartMessage \<Rightarrow> bool \<Rightarrow> (int \<times> error option) \<times> 'e"
  ReceiveVoteMessage :: "'e \<Rightarrow> voteMessage \<Rightarrow> bool \<Rightarrow> (int \<times> error option) \<times> 'e"
  ReceiveBlock :: "'e \<Rightarrow> BlockResult \<Rightarrow> 'e"

text \<open>The other collaborators: \<open>bm.GetBlockByHeight\<close>, \<open>fsm.FetchBlocks\<close> (the
  handle it returns; its error is dropped by the caller), \<open>unmarshalMessage\<close> (on the
  protocol tag and the bytes; it can return a message of another kind, \<open>OtherMessage\<close>),
  \<open>msg.verify\<close> and \<open>msgCodec.MarshalToBytes\<close>.\<close>

record collaborators =
  GetBlockByHeight :: "int64 \<Rightarrow> error + Block"
  FetchBlocks :: "int64 \<Rightarrow> int64 \<Rightarrow> Block \<Rightarrow> canceler option"
  unmarshalMessage :: "ProtocolInfo \<Rightarrow> bytes \<Rightarrow> error + message"
  verify :: "message \<Rightarrow> error option"
  MarshalToBytes :: "message \<Rightarrow> error + bytes"

text \<open>Calls that leave the synchronizer.\<close>

datatype effect =
    Unicast ProtocolInfo bytes PeerID
  | Broadcast ProtocolInfo bytes
  | FetchBlocksCall int64 int64 Block
  | TimerStop nat
  | AfterFunc int nat
  | WakeAfter int PeerID
  | StopServer
  | CancelFetch canceler
  | AwaitStopped PeerID
  | SignalStopped PeerID
  | GoSync PeerID

subsection \<open>Configuration\<close>

definition configSendBPS :: int where
  "configSendBPS = - 1"


definition configFastSyncThreshold :: int64 where
  "configFastSyncThreshold = 4"

subsection \<open>Peer and synchronizer state\<close>

text \<open>
  \<open>wakeUpChan\<close> is a channel with one slot: the field says whether the slot is full.
  \<open>peerRoundState\<close> is the embedded pointer: \<open>None\<close> is nil, \<open>Some a\<close> points to the
  object at \<open>a\<close> in the heap of the synchronizer state below.
\<close>

record peer =
  peer_id :: PeerID
  wakeUpChan :: bool
  running :: bool
  peerRoundState :: "addr option"

text \<open>
  The struct \<open>syncer\<close>, with the state of the engine it refers to, and the heap of
  round-state objects its peers point to (\<open>nextAddr\<close> is the next unused address).
  \<open>timer\<close> is the identity of the armed timer, \<open>lastSendTime\<close> is in nanoseconds.
\<close>

record 'e syncer =
  engine :: 'e
  peers :: "peer list"
  timer :: "nat option"
  lastSendTime :: int
  running :: bool
  fetchCanceler :: "canceler option"
  heap :: "addr \<Rightarrow> peerRoundState"
  nextAddr :: addr

subsection \<open>The peer task: \<open>wakeUp\<close>, \<open>setRoundState\<close>, \<open>doSync\<close>\<close>

definition wakeUp :: "peer \<Rightarrow> peer" where
  "wakeUp p = p\<lparr>wakeUpChan := True\<rparr>"

definition setRoundState :: "peer \<Rightarrow> addr \<Rightarrow> peer" where
  "setRoundState p prs = wakeUp (p\<lparr>peerRoundState := Some prs\<rparr>)"

text \<open>\<open>p.peerRoundState = nil\<close> for the peer at position \<open>i\<close> of \<open>s.peers\<close>.\<close>

definition clearRoundState :: "nat \<Rightarrow> 'e syncer \<Rightarrow> 'e syncer" where
  "clearRoundState i s = s\<lparr>peers := (peers s)[i := (peers s ! i)\<lparr>peerRoundState := None\<rparr>]\<rparr>"

text \<open>A write to the field \<open>BlockPartsMask\<close> of the round state at \<open>a\<close>.\<close>

definition setBlockPartsMask :: "addr \<Rightarrow> bitArray \<Rightarrow> 'e syncer \<Rightarrow> 'e syncer" where
  "setBlockPartsMask a m s = s\<lparr>heap := (heap s)(a := (heap s a)\<lparr>BlockPartsMask := Some m\<rparr>)\<rparr>"

text \<open>
  \<open>peer.doSync\<close> for the peer at position \<open>i\<close> of \<open>s.peers\<close>: the message to send (if
  any), the external calls made, and the new state. \<open>rnd\<close> is the random number
  \<open>PickRandom\<close> draws.
  (The loop of \<open>sync\<close> calls \<open>doSync\<close> only while \<open>p.running\<close>, and a running peer
  is in \<open>s.peers\<close>.)
\<close>

definition doSync ::
  "'e Engine \<Rightarrow> steps \<Rightarrow> collaborators \<Rightarrow> nat \<Rightarrow> nat \<Rightarrow> 'e syncer
     \<Rightarrow> (ProtocolInfo \<times> message) option \<times> effect list \<times> 'e syncer" where
  "doSync E K X rnd i s =
    (let e = engine s; p = peers s ! i in
     case peerRoundState p of
       None \<Rightarrow> (None, [], s)
     | Some a \<Rightarrow>
        let P = heap s a in
        if \<not> Sync P then (None, [], s)
        else if peerRoundState.Height P <s Engine.Height E e
                \<or> (peerRoundState.Height P = Engine.Height E e \<and> stepCommit K \<le> Step E e) then
          (case BlockPartsMask P of
             None \<Rightarrow>
               let vl = GetCommitPrecommits E e (peerRoundState.Height P);
                   m = newBitArray (Parts (GetCommitBlockParts E e (peerRoundState.Height P)))
               in (Some (protoVoteList, VoteListMessage vl), [], setBlockPartsMask a m s)
           | Some bpm \<Rightarrow>
               let partSet = GetCommitBlockParts E e (peerRoundState.Height P);
                   mask = bitArray_AssignAnd (bitArray_Flip (bitArray_Copy bpm)) (GetMask partSet);
                   idx = bitArray_PickRandom rnd mask
               in if idx < 0 then (None, [], s)
                  else
                    (Some (protoBlockPart, BlockPartMessage
                        \<lparr>blockPartMessage.Height = peerRoundState.Height P,
                         Index = uint16 idx,
                         BlockPart = GetPart partSet idx\<rparr>),
                     [], setBlockPartsMask a (bitArray_Set bpm idx) s))
        else if Engine.Height E e <s peerRoundState.Height P then
          (if Engine.Height E e + configFastSyncThreshold <s peerRoundState.Height P
              \<and> fetchCanceler s = None then
             (case GetBlockByHeight X (Engine.Height E e - 1) of
                Inl err \<Rightarrow> (None, [], s)
              | Inr blk \<Rightarrow>
                  (None, [FetchBlocksCall (Engine.Height E e) (- 1) blk],
                   s\<lparr>fetchCanceler := FetchBlocks X (Engine.Height E e) (- 1) blk\<rparr>))
           else (None, [], s))
        else if peerRoundState.Round P <s Engine.Round E e \<and> stepPrecommitWait K \<le> Step E e then
          (Some (protoVoteList, VoteListMessage (GetPrecommits E e (Engine.Round E e))), [],
           clearRoundState i s)
        else if peerRoundState.Round P <s Engine.Round E e then
          (Some (protoVoteList, VoteListMessage (GetPrecommits E e (Engine.Round E e - 1))), [],
           clearRoundState i s)
        else if peerRoundState.Round P = Engine.Round E e then
          (let pv = bitArray_Flip (bitArray_Copy (PrevotesMask P));
               pc = bitArray_Flip (bitArray_Copy (PrecommitsMask P));
               vl = GetVotes E e (Engine.Round E e) pv pc
           in if 0 < length vl then
                (Some (protoVoteList, VoteListMessage vl), [], clearRoundState i s)
              else (None, [], s))
        else (None, [], s))"

subsection \<open>The peer task: one turn of the loop of \<open>sync\<close>\<close>

text \<open>
  Times are in nanoseconds. \<open>time.Duration\<close> is an \<open>int64\<close>: its arithmetic is written
  on \<open>int\<close> with the wrap-around (\<open>wrap64\<close>), Go's \<open>/\<close> truncates towards zero
  (\<open>go_div\<close>), and \<open>Time.Sub\<close> saturates at the bounds of a duration.
\<close>

definition wrap64 :: "int \<Rightarrow> int" where
  "wrap64 x = (x + 2 ^ 63) mod 2 ^ 64 - 2 ^ 63"

definition go_div :: "int \<Rightarrow> int \<Rightarrow> int" where
  "go_div a b = (if (a < 0) = (b < 0) then \<bar>a\<bar> div \<bar>b\<bar> else - (\<bar>a\<bar> div \<bar>b\<bar>))"

definition Second :: int where
  "Second = 1000000000"

definition time_Sub :: "int \<Rightarrow> int \<Rightarrow> int" where
  "time_Sub t u = max (- (2 ^ 63)) (min (2 ^ 63 - 1) (t - u))"

definition time_Before :: "int \<Rightarrow> int \<Rightarrow> bool" where
  "time_Before t u = (t < u)"

text \<open>\<open>p.wakeUp()\<close> for the peer at position \<open>i\<close>.\<close>

definition wakeUpAt :: "nat \<Rightarrow> 'e syncer \<Rightarrow> 'e syncer" where
  "wakeUpAt i s = s\<lparr>peers := (peers s)[i := wakeUp (peers s ! i)]\<rparr>"

datatype loop = Blocked | Stopped | Continue

text \<open>
  One turn of the \<open>for\<close> loop of \<open>peer.sync\<close> for the peer at position \<open>i\<close>, with the
  local variable \<open>nextSendTime\<close> passed in and out. \<open>bps\<close> stands for the constant
  \<open>configSendBPS\<close> (\<open>peer_sync\<close> below fixes it to the source's value), \<open>now\<close> is what
  \<open>time.Now()\<close> returns. The turn is \<open>Blocked\<close> while the wake-up channel is empty;
  otherwise it takes the token. \<open>None\<close> is a panic (\<open>Panicf\<close> when the message cannot be
  marshalled; a division by zero for a cap of 0).
  In the source the mutex is held up to the return of \<open>doSync\<close>; marshalling, the
  unicast and the wake-up follow without it. The turn is one step here.
\<close>

definition peer_sync_iter ::
  "'e Engine \<Rightarrow> steps \<Rightarrow> collaborators \<Rightarrow> int \<Rightarrow> int \<Rightarrow> nat \<Rightarrow> nat \<Rightarrow> int option \<Rightarrow> 'e syncer
     \<Rightarrow> (loop \<times> int option \<times> effect list \<times> 'e syncer) option" where
  "peer_sync_iter E K X bps now rnd i nextSendTime s =
    (let p = peers s ! i in
     if \<not> wakeUpChan p then Some (Blocked, nextSendTime, [], s)
     else
       let s0 = s\<lparr>peers := (peers s)[i := p\<lparr>wakeUpChan := False\<rparr>]\<rparr> in
       if \<not> peer.running p then Some (Stopped, nextSendTime, [SignalStopped (peer_id p)], s0)
       else if (case nextSendTime of None \<Rightarrow> False | Some t \<Rightarrow> time_Before now t) then
         Some (Continue, nextSendTime, [], s0)
       else
         (case doSync E K X rnd i s0 of
            (None, fx, s1) \<Rightarrow> Some (Continue, None, fx, s1)
          | (Some (proto, msg), fx, s1) \<Rightarrow>
              (case MarshalToBytes X msg of
                 Inl err \<Rightarrow> None
               | Inr msgBS \<Rightarrow>
                   let fx1 = fx @ [Unicast proto msgBS (peer_id p)] in
                   if bps < 0 then Some (Continue, nextSendTime, fx1, wakeUpAt i s1)
                   else if bps = 0 then None
                   else
                     let base = (case nextSendTime of None \<Rightarrow> now | Some t \<Rightarrow> t);
                         delta = wrap64 (go_div (wrap64 (Second * int (length msgBS))) bps);
                         next = base + delta;
                         waitTime = time_Sub next now
                     in if 0 < waitTime then
                          Some (Continue, Some next, fx1 @ [WakeAfter waitTime (peer_id p)], s1)
                        else Some (Continue, Some next, fx1, wakeUpAt i s1))))"

definition peer_sync ::
  "'e Engine \<Rightarrow> steps \<Rightarrow> collaborators \<Rightarrow> int \<Rightarrow> nat \<Rightarrow> nat \<Rightarrow> int option \<Rightarrow> 'e syncer
     \<Rightarrow> (loop \<times> int option \<times> effect list \<times> 'e syncer) option" where
  "peer_sync E K X now rnd i nextSendTime s =
     peer_sync_iter E K X configSendBPS now rnd i nextSendTime s"

definition peer_stop :: "peer \<Rightarrow> effect list \<times> peer" where
  "peer_stop p = ([AwaitStopped (peer_id p)], wakeUp (p\<lparr>peer.running := False\<rparr>))"

definition newPeer :: "PeerID \<Rightarrow> peer" where
  "newPeer pid = \<lparr>peer_id = pid, wakeUpChan = False, running = True, peerRoundState = None\<rparr>"

subsection \<open>The synchronizer\<close>

text \<open>\<open>doSendRoundStateMessage\<close>: \<open>None\<close> is the panic when the message cannot be
  marshalled; an error of the network handler is only logged.\<close>

definition doSendRoundStateMessage ::
  "'e Engine \<Rightarrow> collaborators \<Rightarrow> PeerID option \<Rightarrow> 'e syncer \<Rightarrow> effect list option" where
  "doSendRoundStateMessage E X pid s =
    (let msg = RoundStateMessage (GetRoundState E (engine s)) in
     case MarshalToBytes X msg of
       Inl err \<Rightarrow> None
     | Inr bs \<Rightarrow>
         (case pid of
            None \<Rightarrow> if 0 < length (peers s) then Some [Broadcast protoRoundState bs] else Some []
          | Some to \<Rightarrow> Some [Unicast protoRoundState bs to]))"


text \<open>The peers woken by an incoming block part: \<open>h\<close> is the height of the part.\<close>

definition wakeForPart :: "'e Engine \<Rightarrow> int64 \<Rightarrow> 'e syncer \<Rightarrow> peer \<Rightarrow> peer" where
  "wakeForPart E h s p =
    (case peerRoundState p of
       None \<Rightarrow> p
     | Some a \<Rightarrow>
         if peerRoundState.Height (heap s a) = h
            \<and> peerRoundState.Height (heap s a) = Engine.Height E (engine s)
            \<and> BlockPartsMask (heap s a) \<noteq> None
         then wakeUp p else p)"

text \<open>The loop over the votes of a vote list: what \<open>ReceiveVoteMessage\<close> returns is
  dropped.\<close>

fun receiveVotes :: "'e Engine \<Rightarrow> voteList \<Rightarrow> 'e \<Rightarrow> 'e" where
  "receiveVotes E [] e = e"
| "receiveVotes E (v # vl) e = receiveVotes E vl (snd (ReceiveVoteMessage E e v True))"

text \<open>\<open>syncer.OnReceive\<close>: the pair it returns, the external calls, the new state. The
  round state of a decoded RoundState message is a new object on the heap.\<close>

definition OnReceive ::
  "'e Engine \<Rightarrow> collaborators \<Rightarrow> ProtocolInfo \<Rightarrow> bytes \<Rightarrow> PeerID \<Rightarrow> 'e syncer
     \<Rightarrow> (bool \<times> error option) \<times> effect list \<times> 'e syncer" where
  "OnReceive E X sp bs pid s =
    (if \<not> syncer.running s then ((False, None), [], s)
     else
       case unmarshalMessage X sp bs of
         Inl err \<Rightarrow> ((False, Some err), [], s)
       | Inr msg \<Rightarrow>
           (case verify X msg of
              Some err \<Rightarrow> ((False, Some err), [], s)
            | None \<Rightarrow>
                (case msg of
                   BlockPartMessage m \<Rightarrow>
                     (case ReceiveBlockPartMessage E (engine s) m True of
                        ((idx, err), e') \<Rightarrow>
                          let s1 = s\<lparr>engine := e'\<rparr> in
                          if idx < 0 \<and> err \<noteq> None then ((False, err), [], s1)
                          else
                            let s2 = s1\<lparr>peers :=
                                  map (wakeForPart E (blockPartMessage.Height m) s1) (peers s1)\<rparr>
                            in if err \<noteq> None then ((False, err), [], s2)
                               else ((True, None), [], s2))
                 | RoundStateMessage prs \<Rightarrow>
                     let a = nextAddr s;
                         s1 = s\<lparr>heap := (heap s)(a := prs), nextAddr := a + 1\<rparr>
                     in ((True, None), [],
                         s1\<lparr>peers := map (\<lambda>p. if peer_id p = pid then setRoundState p a else p)
                                        (peers s1)\<rparr>)
                 | VoteListMessage vl \<Rightarrow>
                     ((True, None), [], s\<lparr>engine := receiveVotes E vl (engine s)\<rparr>)
                 | OtherMessage b \<Rightarrow> ((True, None), [], s))))"

definition OnFailure :: "error \<Rightarrow> ProtocolInfo \<Rightarrow> bytes \<Rightarrow> 'e syncer \<Rightarrow> 'e syncer" where
  "OnFailure err sp b s = (if \<not> syncer.running s then s else s)"

definition OnJoin ::
  "'e Engine \<Rightarrow> collaborators \<Rightarrow> PeerID \<Rightarrow> 'e syncer \<Rightarrow> (effect list \<times> 'e syncer) option" where
  "OnJoin E X pid s =
    (if \<not> syncer.running s then Some ([], s)
     else if pid \<in> set (map peer_id (peers s)) then Some ([], s)
     else
       let s1 = s\<lparr>peers := peers s @ [newPeer pid]\<rparr> in
       case doSendRoundStateMessage E X (Some pid) s1 of
         None \<Rightarrow> None
       | Some fx \<Rightarrow> Some (GoSync pid # fx, s1))"

text \<open>The position of the first peer with the given id.\<close>

fun findPeer :: "PeerID \<Rightarrow> peer list \<Rightarrow> nat option" where
  "findPeer pid [] = None"
| "findPeer pid (p # ps) =
     (if peer_id p = pid then Some 0
      else case findPeer pid ps of None \<Rightarrow> None | Some k \<Rightarrow> Some (Suc k))"

text \<open>\<open>syncer.OnLeave\<close>: the peer found is swapped with the last one and cut off; it is
  stopped after it has left the list, so only the wait for its task remains as an
  effect.\<close>

definition OnLeave :: "PeerID \<Rightarrow> 'e syncer \<Rightarrow> effect list \<times> 'e syncer" where
  "OnLeave pid s =
    (if \<not> syncer.running s then ([], s)
     else
       case findPeer pid (peers s) of
         None \<Rightarrow> ([], s)
       | Some i \<Rightarrow>
           let p = peers s ! i;
               last = length (peers s) - 1;
               ps = take last ((peers s)[i := peers s ! last])
           in (fst (peer_stop p), s\<lparr>peers := ps\<rparr>))"


text \<open>\<open>syncer.Stop\<close>.\<close>

definition Stop :: "'e syncer \<Rightarrow> effect list \<times> 'e syncer" where
  "Stop s =
    (concat (map (\<lambda>p. fst (peer_stop p)) (peers s))
       @ (case timer s of None \<Rightarrow> [] | Some t \<Rightarrow> [TimerStop t])
       @ [StopServer]
       @ (case fetchCanceler s of None \<Rightarrow> [] | Some c \<Rightarrow> [CancelFetch c]),
     s\<lparr>peers := map (\<lambda>p. snd (peer_stop p)) (peers s),
       running := False, timer := None, fetchCanceler := None\<rparr>)"

definition OnBlock :: "'e Engine \<Rightarrow> BlockResult \<Rightarrow> 'e syncer \<Rightarrow> 'e syncer" where
  "OnBlock E br s =
    (if \<not> syncer.running s then s else s\<lparr>engine := ReceiveBlock E (engine s) br\<rparr>)"

definition OnEnd :: "error option \<Rightarrow> 'e syncer \<Rightarrow> 'e syncer" where
  "OnEnd err s = (if \<not> syncer.running s then s else s\<lparr>fetchCanceler := None\<rparr>)"

subsection \<open>Runs of the peer tasks between two RoundState updates\<close>






subsection \<open>A sample engine\<close>

text \<open>
  A small engine for evaluating the model: its state holds height, round and step and
  the log of what was delivered to it; it has one block of three parts (all present) at
  every height, and rejects the vote \<open>Vote 0\<close> and every block part with index above 2.
\<close>

record sample =
  s_height :: int64
  s_round :: int32
  s_step :: step
  s_votes :: "voteMessage list"
  s_parts :: "blockPartMessage list"
  s_blocks :: "BlockResult list"

definition samplePartSet :: PartSet where
  "samplePartSet = \<lparr>Parts = 3, GetMask = [True, True, True], GetPart = (\<lambda>i. [word_of_int i])\<rparr>"

definition sampleRoundState :: "sample \<Rightarrow> peerRoundState" where
  "sampleRoundState e =
     \<lparr>peerRoundState.Height = s_height e, Round = s_round e, Sync = True, BlockPartsMask = None,
      PrevotesMask = [True, True, True, True], PrecommitsMask = [True, True, False, False]\<rparr>"

definition sampleEngine :: "sample Engine" where
  "sampleEngine =
     \<lparr>GetCommitBlockParts = (\<lambda>e h. samplePartSet),
      GetCommitPrecommits = (\<lambda>e h. [Vote 7, Vote 8, Vote 9]),
      GetPrecommits = (\<lambda>e r. [Vote (unat r)]),
      GetVotes = (\<lambda>e r pv pc.
         map (\<lambda>k. Vote (10 + k)) (ones (bitArray_AssignAnd pv [True, True, True, True]))
         @ map (\<lambda>k. Vote (20 + k)) (ones (bitArray_AssignAnd pc [True, True, False, False]))),
      GetRoundState = sampleRoundState,
      Engine.Height = s_height,
      Engine.Round = s_round,
      Step = s_step,
      ReceiveBlockPartMessage = (\<lambda>e m u.
         if 2 < Index m then ((- 1, Some (Error ''bad part'')), e)
         else ((Index m, None), e\<lparr>s_parts := s_parts e @ [m]\<rparr>)),
      ReceiveVoteMessage = (\<lambda>e v u.
         if v = Vote 0 then ((- 1, Some (Error ''bad voter'')), e)
         else ((0, None), e\<lparr>s_votes := s_votes e @ [v]\<rparr>)),
      ReceiveBlock = (\<lambda>e br. e\<lparr>s_blocks := s_blocks e @ [br]\<rparr>)\<rparr>"

definition sampleSteps :: steps where
  "sampleSteps = \<lparr>stepPropose = 1, stepPrecommitWait = 5, stepCommit = 6\<rparr>"

definition advertised :: "int64 \<Rightarrow> int32 \<Rightarrow> bool \<Rightarrow> bitArray option \<Rightarrow> peerRoundState" where
  "advertised h r sy bpm =
     \<lparr>peerRoundState.Height = h, Round = r, Sync = sy, BlockPartsMask = bpm,
      PrevotesMask = [True, False, False, False], PrecommitsMask = [False, False, False, False]\<rparr>"

text \<open>
  Sample collaborators. The codec reads a vote list as one vote per byte, a block part
  as its index (height 10), and any RoundState message as height 10, round 0; a block
  part with index above 5 does not verify. Every message is marshalled to 100 bytes.
\<close>

definition sampleCollab :: collaborators where
  "sampleCollab =
     \<lparr>GetBlockByHeight = (\<lambda>h. Inr (Block h)),
      FetchBlocks = (\<lambda>f t b. Some (Canceler 1)),
      unmarshalMessage = (\<lambda>sp bs.
         case sp of
           protoVoteList \<Rightarrow> Inr (VoteListMessage (map (\<lambda>b. Vote (unat b)) bs))
         | protoBlockPart \<Rightarrow>
             (case bs of
                [b] \<Rightarrow> Inr (BlockPartMessage
                         \<lparr>blockPartMessage.Height = 10, Index = uint b, BlockPart = []\<rparr>)
              | _ \<Rightarrow> Inl (Error ''decode''))
         | protoRoundState \<Rightarrow> Inr (RoundStateMessage (advertised 10 0 True None))
         | protoOther n \<Rightarrow> Inl (Error ''decode'')),
      verify = (\<lambda>m.
         case m of
           BlockPartMessage bp \<Rightarrow> if 5 < Index bp then Some (Error ''verify'') else None
         | _ \<Rightarrow> None),
      MarshalToBytes = (\<lambda>m. Inr (replicate 100 0))\<rparr>"

definition sampleEngineAt :: "int64 \<Rightarrow> int32 \<Rightarrow> step \<Rightarrow> sample" where
  "sampleEngineAt h r st =
     \<lparr>s_height = h, s_round = r, s_step = st, s_votes = [], s_parts = [], s_blocks = []\<rparr>"

text \<open>A synchronizer with one peer whose round state is the object at address 0.\<close>

definition onePeer :: "sample \<Rightarrow> peerRoundState \<Rightarrow> sample syncer" where
  "onePeer e P =
     \<lparr>engine = e,
      peers = [\<lparr>peer_id = [1], wakeUpChan = False, running = True, peerRoundState = Some 0\<rparr>],
      timer = None, lastSendTime = 0, running = True, fetchCanceler = None,
      heap = (\<lambda>a. P), nextAddr = 1\<rparr>"

section \<open>Properties\<close>

subsection \<open>Evaluating the sample\<close>

lemma replicate_3: "replicate 3 x = [x, x, x]"
  by (simp add: numeral_3_eq_3)

lemmas sample_defs = word_sless_alt replicate_3 onePeer_def sampleEngineAt_def advertised_def sampleEngine_def
  sampleSteps_def samplePartSet_def sampleCollab_def sampleRoundState_def

lemma ones_Nil: "ones [] = []"
  by (simp add: ones_def)

lemma ones_Cons: "ones (b # bs) = (if b then [0] else []) @ map Suc (ones bs)"
proof -
  have "[0..<length (b # bs)] = 0 # map Suc [0..<length bs]"
    by (simp add: upt_conv_Cons map_Suc_upt del: upt_Suc)
  then show ?thesis
    by (simp add: ones_def filter_map comp_def del: upt_Suc)
qed

lemmas mask_eval = bitArray_Flip_def bitArray_Copy_def bitArray_AssignAnd_def
  bitArray_PickRandom_def bitArray_Set_def ones_Nil ones_Cons uint16_def newBitArray_def

subsection \<open>Commit precommits before block parts\<close>

text \<open>
  C1. For a peer whose round state P is present with \<open>P.Sync\<close> true, and with
  \<open>P.Height < H\<close>, or \<open>P.Height = H\<close> and engine step at least commit: if
  \<open>P.BlockPartsMask\<close> is nil, \<open>doSync\<close> returns a VoteList message with the commit
  precommits for \<open>P.Height\<close> and sets \<open>P.BlockPartsMask\<close> to a fresh all-zero mask
  with one bit per part of the commit block at \<open>P.Height\<close>; it makes no external call
  and returns no BlockPart.
\<close>

theorem doSync_commit_precommits:
  assumes "peerRoundState (peers s ! i) = Some a"
    and "Sync (heap s a)"
    and "peerRoundState.Height (heap s a) <s Engine.Height E (engine s)
         \<or> (peerRoundState.Height (heap s a) = Engine.Height E (engine s)
            \<and> stepCommit K \<le> Step E (engine s))"
    and "BlockPartsMask (heap s a) = None"
  shows "doSync E K X rnd i s =
           (Some (protoVoteList,
                  VoteListMessage (GetCommitPrecommits E (engine s) (peerRoundState.Height (heap s a)))),
            [],
            s\<lparr>heap := (heap s)(a := (heap s a)\<lparr>BlockPartsMask :=
                 Some (replicate (nat (Parts (GetCommitBlockParts E (engine s)
                         (peerRoundState.Height (heap s a))))) False)\<rparr>)\<rparr>)"
  using assms by (simp add: doSync_def Let_def setBlockPartsMask_def newBitArray_def)

theorem doSync_commit_precommits_witness:
  "doSync sampleEngine sampleSteps sampleCollab 0 0
       (onePeer (sampleEngineAt 10 0 6) (advertised 10 0 True None))
   = (Some (protoVoteList, VoteListMessage [Vote 7, Vote 8, Vote 9]), [],
      (onePeer (sampleEngineAt 10 0 6) (advertised 10 0 True None))
        \<lparr>heap := (\<lambda>a. advertised 10 0 True None)
                   (0 := advertised 10 0 True (Some [False, False, False]))\<rparr>)"
  using doSync_commit_precommits [of "onePeer (sampleEngineAt 10 0 6) (advertised 10 0 True None)"
      0 0 sampleEngine sampleSteps sampleCollab 0]
  by (simp add: sample_defs)

subsection \<open>Auxiliary facts about \<open>doSync\<close>\<close>

lemma sless_add4:
  fixes a b :: "64 word"
  assumes "sint b + 4 < sint a"
  shows "b + 4 <s a"
proof -
  have lo: "- (2 ^ 63) \<le> sint b" using sint_ge [of b] by simp
  have hi: "sint a < 2 ^ 63" using sint_lt [of a] by simp
  have "sint (b + 4) = signed_take_bit 63 (sint b + 4)"
    by (simp add: sint_word_ariths)
  also have "\<dots> = sint b + 4"
    using lo hi assms by (intro signed_take_bit_int_eq_self) auto
  finally show ?thesis using assms by (simp add: word_sless_alt)
qed

lemma doSync_nil: "peerRoundState (peers s ! i) = None \<Longrightarrow> doSync E K X rnd i s = (None, [], s)"
  by (simp add: doSync_def)

lemma doSync_no_sync:
  "peerRoundState (peers s ! i) = Some a \<Longrightarrow> \<not> Sync (heap s a) \<Longrightarrow> doSync E K X rnd i s = (None, [], s)"
  by (simp add: doSync_def)


lemma doSync_outcome:
  assumes "doSync E K X rnd j s = (r, fx, s')"
  shows "(r = None \<and> s' = s)
   \<or> (r = None \<and> (\<exists>c. s' = s\<lparr>fetchCanceler := c\<rparr>))
   \<or> ((\<exists>vl. r = Some (protoVoteList, VoteListMessage vl)) \<and> s' = clearRoundState j s)
   \<or> (\<exists>a. peerRoundState (peers s ! j) = Some a \<and> BlockPartsMask (heap s a) = None
          \<and> (\<exists>vl. r = Some (protoVoteList, VoteListMessage vl))
          \<and> (\<exists>n. s' = setBlockPartsMask a (newBitArray n) s))
   \<or> (\<exists>a bpm. peerRoundState (peers s ! j) = Some a \<and> BlockPartsMask (heap s a) = Some bpm
          \<and> \<not> bitArray_PickRandom rnd (bitArray_AssignAnd (bitArray_Flip (bitArray_Copy bpm))
                 (GetMask (GetCommitBlockParts E (engine s) (peerRoundState.Height (heap s a))))) < 0
          \<and> (\<exists>bs. r = Some (protoBlockPart, BlockPartMessage
                \<lparr>blockPartMessage.Height = peerRoundState.Height (heap s a),
                 Index = uint16 (bitArray_PickRandom rnd (bitArray_AssignAnd (bitArray_Flip (bitArray_Copy bpm))
                 (GetMask (GetCommitBlockParts E (engine s) (peerRoundState.Height (heap s a)))))),
                 BlockPart = bs\<rparr>))
          \<and> s' = setBlockPartsMask a (bitArray_Set bpm
                 (bitArray_PickRandom rnd (bitArray_AssignAnd (bitArray_Flip (bitArray_Copy bpm))
                 (GetMask (GetCommitBlockParts E (engine s) (peerRoundState.Height (heap s a)))))) ) s)"
proof (cases "peerRoundState (peers s ! j)")
  case None
  then show ?thesis using assms by (simp add: doSync_def)
next
  case (Some a)
  note ptr = this
  show ?thesis
  proof (cases "Sync (heap s a)")
    case False
    with ptr assms show ?thesis by (simp add: doSync_def)
  next
    case True
    note sync = this
    show ?thesis
    proof (cases "peerRoundState.Height (heap s a) <s Engine.Height E (engine s)
                \<or> (peerRoundState.Height (heap s a) = Engine.Height E (engine s)
                    \<and> stepCommit K \<le> Step E (engine s))")
      case True
      note commit = this
      show ?thesis
      proof (cases "BlockPartsMask (heap s a)")
        case None
        with ptr sync commit assms show ?thesis
          by (auto simp add: doSync_def Let_def)
      next
        case (Some bpm)
        note mask = this
        define idx where "idx = bitArray_PickRandom rnd
            (bitArray_AssignAnd (bitArray_Flip (bitArray_Copy bpm))
               (GetMask (GetCommitBlockParts E (engine s) (peerRoundState.Height (heap s a)))))"
        show ?thesis
        proof (cases "idx < 0")
          case True
          then have "doSync E K X rnd j s = (None, [], s)"
            using ptr sync commit mask by (simp add: doSync_def Let_def idx_def)
          with assms show ?thesis by simp
        next
          case False
          then have "doSync E K X rnd j s =
              (Some (protoBlockPart, BlockPartMessage
                  \<lparr>blockPartMessage.Height = peerRoundState.Height (heap s a),
                   Index = uint16 idx,
                   BlockPart = GetPart (GetCommitBlockParts E (engine s)
                                 (peerRoundState.Height (heap s a))) idx\<rparr>),
               [], setBlockPartsMask a (bitArray_Set bpm idx) s)"
            using ptr sync commit mask by (simp add: doSync_def Let_def idx_def)
          with assms have "r = Some (protoBlockPart, BlockPartMessage
                  \<lparr>blockPartMessage.Height = peerRoundState.Height (heap s a),
                   Index = uint16 idx,
                   BlockPart = GetPart (GetCommitBlockParts E (engine s)
                                 (peerRoundState.Height (heap s a))) idx\<rparr>)"
            and "s' = setBlockPartsMask a (bitArray_Set bpm idx) s"
            by simp_all
          with False ptr mask show ?thesis unfolding idx_def by simp
        qed
      qed
    next
      case False
      note nocommit = this
      show ?thesis
      proof (cases "Engine.Height E (engine s) <s peerRoundState.Height (heap s a)")
        case True
        with ptr sync nocommit assms show ?thesis
          by (auto simp add: doSync_def Let_def split: sum.splits if_splits)
      next
        case False
        with ptr sync nocommit assms show ?thesis
          by (auto simp add: doSync_def Let_def split: if_splits)
      qed
    qed
  qed
qed


lemma ones_set: "set (ones ba) = {k. k < length ba \<and> ba ! k}"
  by (auto simp add: ones_def)

lemma PickRandom_picks:
  assumes "\<not> bitArray_PickRandom rnd ba < 0"
  shows "bitArray_Get ba (bitArray_PickRandom rnd ba)"
proof -
  have ne: "ones ba \<noteq> []"
    using assms by (auto simp add: bitArray_PickRandom_def)
  then have "rnd mod length (ones ba) < length (ones ba)" by simp
  then have "ones ba ! (rnd mod length (ones ba)) \<in> set (ones ba)" by (rule nth_mem)
  then have "ones ba ! (rnd mod length (ones ba)) < length ba
      \<and> ba ! (ones ba ! (rnd mod length (ones ba)))"
    by (simp add: ones_set)
  then show ?thesis using ne by (simp add: bitArray_PickRandom_def bitArray_Get_def)
qed

lemma Get_missing:
  assumes "bitArray_Get (bitArray_AssignAnd (bitArray_Flip (bitArray_Copy bpm)) gm) k"
  shows "0 \<le> k \<and> nat k < length bpm \<and> \<not> bpm ! nat k \<and> nat k < length gm"
  using assms
  by (auto simp add: bitArray_Get_def bitArray_AssignAnd_def bitArray_Flip_def bitArray_Copy_def)

lemma Get_Set_same: "0 \<le> k \<Longrightarrow> nat k < length m \<Longrightarrow> bitArray_Get (bitArray_Set m k) k"
  by (simp add: bitArray_Get_def bitArray_Set_def)


lemma uint16_id: "0 \<le> k \<Longrightarrow> k < 65536 \<Longrightarrow> uint16 k = k"
  by (simp add: uint16_def)








subsection \<open>A peer that is ahead\<close>

text \<open>
  C3 (amended). For a peer whose round state P is present with \<open>P.Height > H\<close>,
  \<open>doSync\<close> returns no message. If moreover \<open>P.Sync\<close> is true, \<open>P.Height > H + 4\<close>
  (the fast-sync threshold) and no fetch is outstanding (\<open>fetchCanceler\<close> is nil), it
  asks the block manager for the block at \<open>H - 1\<close>; if that fails nothing else happens,
  and if it succeeds \<open>doSync\<close> makes exactly one call \<open>FetchBlocks(H, -1, blk)\<close> and
  stores the handle it returns.
\<close>

theorem doSync_peer_ahead:
  assumes "peerRoundState (peers s ! i) = Some a"
    and "sint (Engine.Height E (engine s)) < sint (peerRoundState.Height (heap s a))"
  shows "fst (doSync E K X rnd i s) = None
     \<and> (Sync (heap s a)
        \<and> sint (Engine.Height E (engine s)) + 4 < sint (peerRoundState.Height (heap s a))
        \<and> fetchCanceler s = None \<longrightarrow>
          doSync E K X rnd i s =
            (case GetBlockByHeight X (Engine.Height E (engine s) - 1) of
               Inl err \<Rightarrow> (None, [], s)
             | Inr blk \<Rightarrow>
                 (None, [FetchBlocksCall (Engine.Height E (engine s)) (- 1) blk],
                  s\<lparr>fetchCanceler := FetchBlocks X (Engine.Height E (engine s)) (- 1) blk\<rparr>)))"
proof -
  let ?H = "Engine.Height E (engine s)" and ?PH = "peerRoundState.Height (heap s a)"
  have gt: "?H <s ?PH" using assms(2) by (simp add: word_sless_alt)
  have nlt: "\<not> ?PH <s ?H" and neq: "?PH \<noteq> ?H"
    using assms(2) by (auto simp add: word_sless_alt)
  have first: "fst (doSync E K X rnd i s) = None"
    using assms(1) gt nlt neq by (simp add: doSync_def Let_def split: sum.split)
  have second: "doSync E K X rnd i s =
            (case GetBlockByHeight X (?H - 1) of
               Inl err \<Rightarrow> (None, [], s)
             | Inr blk \<Rightarrow>
                 (None, [FetchBlocksCall ?H (- 1) blk],
                  s\<lparr>fetchCanceler := FetchBlocks X ?H (- 1) blk\<rparr>))"
    if "Sync (heap s a)" and far: "sint ?H + 4 < sint ?PH" and "fetchCanceler s = None"
  proof -
    have "?H + configFastSyncThreshold <s ?PH"
      using sless_add4 [OF far] by (simp add: configFastSyncThreshold_def)
    then show ?thesis
      using assms(1) gt nlt neq that by (simp add: doSync_def Let_def split: sum.split)
  qed
  from first second show ?thesis by blast
qed


theorem doSync_peer_ahead_witness:
  "doSync sampleEngine sampleSteps sampleCollab 0 0
       (onePeer (sampleEngineAt 100 0 1) (advertised 110 0 True None))
   = (None, [FetchBlocksCall 100 (- 1) (Block 99)],
      (onePeer (sampleEngineAt 100 0 1) (advertised 110 0 True None))
        \<lparr>fetchCanceler := Some (Canceler 1)\<rparr>)"
  using doSync_peer_ahead [of "onePeer (sampleEngineAt 100 0 1) (advertised 110 0 True None)"
      0 0 sampleEngine sampleSteps sampleCollab 0]
  by (simp add: sample_defs)

text \<open>
  C3 as stated fails without \<open>P.Sync\<close>: the peer below is 10 heights ahead, no
  fetch is outstanding and the block manager has the block at \<open>H - 1\<close>, yet \<open>doSync\<close>
  makes no call and stores no handle.
\<close>

theorem doSync_peer_ahead_counterexample:
  "peerRoundState (peers (onePeer (sampleEngineAt 100 0 1) (advertised 110 0 False None)) ! 0) = Some 0
   \<and> sint (Engine.Height sampleEngine (sampleEngineAt 100 0 1)) + 4
        < sint (peerRoundState.Height (advertised 110 0 False None))
   \<and> fetchCanceler (onePeer (sampleEngineAt 100 0 1) (advertised 110 0 False None)) = None
   \<and> GetBlockByHeight sampleCollab (Engine.Height sampleEngine (sampleEngineAt 100 0 1) - 1)
        = Inr (Block 99)
   \<and> doSync sampleEngine sampleSteps sampleCollab 0 0
        (onePeer (sampleEngineAt 100 0 1) (advertised 110 0 False None))
      = (None, [], onePeer (sampleEngineAt 100 0 1) (advertised 110 0 False None))"
  by (simp add: sample_defs doSync_def)

subsection \<open>A peer in an earlier round\<close>

text \<open>
  C4 (amended). For a peer with \<open>P.Sync\<close> true at the engine's height with
  \<open>P.Round < R\<close>, while the engine step is earlier than commit: \<open>doSync\<close> returns a
  VoteList with the engine's precommits for round \<open>R\<close> if the step is at least
  precommit-wait, and for round \<open>R - 1\<close> otherwise; in both cases the peer's round
  state is set to nil, and \<open>doSync\<close> returns nothing for this peer as long as it is nil.
\<close>

theorem doSync_earlier_round:
  fixes s :: "'e syncer"
  assumes "i < length (peers s)"
    and "peerRoundState (peers s ! i) = Some a"
    and "Sync (heap s a)"
    and "peerRoundState.Height (heap s a) = Engine.Height E (engine s)"
    and "Step E (engine s) < stepCommit K"
    and "peerRoundState.Round (heap s a) <s Engine.Round E (engine s)"
  shows "doSync E K X rnd i s =
           (Some (protoVoteList, VoteListMessage (GetPrecommits E (engine s)
              (if stepPrecommitWait K \<le> Step E (engine s) then Engine.Round E (engine s)
               else Engine.Round E (engine s) - 1))),
            [],
            s\<lparr>peers := (peers s)[i := (peers s ! i)\<lparr>peerRoundState := None\<rparr>]\<rparr>)
     \<and> peerRoundState (peers (snd (snd (doSync E K X rnd i s))) ! i) = None
     \<and> (\<forall>E' K' X' rnd' (t :: 'e syncer). peerRoundState (peers t ! i) = None
            \<longrightarrow> doSync E' K' X' rnd' i t = (None, [], t))"
proof -
  have eq: "doSync E K X rnd i s =
           (Some (protoVoteList, VoteListMessage (GetPrecommits E (engine s)
              (if stepPrecommitWait K \<le> Step E (engine s) then Engine.Round E (engine s)
               else Engine.Round E (engine s) - 1))),
            [],
            s\<lparr>peers := (peers s)[i := (peers s ! i)\<lparr>peerRoundState := None\<rparr>]\<rparr>)"
    using assms by (simp add: doSync_def Let_def clearRoundState_def word_sless_alt)
  have nil: "peerRoundState (peers (snd (snd (doSync E K X rnd i s))) ! i) = None"
    using assms(1) by (simp add: eq)
  show ?thesis using eq nil by (simp add: doSync_nil)
qed


theorem doSync_earlier_round_witness:
  "doSync sampleEngine sampleSteps sampleCollab 0 0
       (onePeer (sampleEngineAt 10 3 4) (advertised 10 1 True None))
   = (Some (protoVoteList, VoteListMessage [Vote 2]), [],
      (onePeer (sampleEngineAt 10 3 4) (advertised 10 1 True None))
        \<lparr>peers := [\<lparr>peer_id = [1], wakeUpChan = False, running = True, peerRoundState = None\<rparr>]\<rparr>)
   \<and> doSync sampleEngine sampleSteps sampleCollab 0 0
       (onePeer (sampleEngineAt 10 3 5) (advertised 10 1 True None))
   = (Some (protoVoteList, VoteListMessage [Vote 3]), [],
      (onePeer (sampleEngineAt 10 3 5) (advertised 10 1 True None))
        \<lparr>peers := [\<lparr>peer_id = [1], wakeUpChan = False, running = True, peerRoundState = None\<rparr>]\<rparr>)"
  using doSync_earlier_round [where i = 0 and a = 0 and E = sampleEngine and K = sampleSteps
      and X = sampleCollab and rnd = 0
      and s = "onePeer (sampleEngineAt 10 3 4) (advertised 10 1 True None)", THEN conjunct1]
    doSync_earlier_round [where i = 0 and a = 0 and E = sampleEngine and K = sampleSteps
      and X = sampleCollab and rnd = 0
      and s = "onePeer (sampleEngineAt 10 3 5) (advertised 10 1 True None)", THEN conjunct1]
  by (simp add: sample_defs)

text \<open>
  C4 as stated fails at step commit, where the commit branch comes first (the commit
  precommits are returned and the round state stays), and for a peer with \<open>P.Sync\<close>
  false (nothing is returned).
\<close>

theorem doSync_earlier_round_counterexample:
  "peerRoundState.Height (advertised 10 1 True None) = Engine.Height sampleEngine (sampleEngineAt 10 3 6)
   \<and> peerRoundState.Round (advertised 10 1 True None) <s Engine.Round sampleEngine (sampleEngineAt 10 3 6)
   \<and> stepPrecommitWait sampleSteps \<le> Step sampleEngine (sampleEngineAt 10 3 6)
   \<and> GetPrecommits sampleEngine (sampleEngineAt 10 3 6) 3 = [Vote 3]
   \<and> doSync sampleEngine sampleSteps sampleCollab 0 0
        (onePeer (sampleEngineAt 10 3 6) (advertised 10 1 True None))
      = (Some (protoVoteList, VoteListMessage [Vote 7, Vote 8, Vote 9]), [],
         (onePeer (sampleEngineAt 10 3 6) (advertised 10 1 True None))
           \<lparr>heap := (\<lambda>a. advertised 10 1 True None)
                      (0 := advertised 10 1 True (Some [False, False, False]))\<rparr>)
   \<and> peerRoundState.Round (advertised 10 1 False None) <s Engine.Round sampleEngine (sampleEngineAt 10 3 5)
   \<and> stepPrecommitWait sampleSteps \<le> Step sampleEngine (sampleEngineAt 10 3 5)
   \<and> doSync sampleEngine sampleSteps sampleCollab 0 0
        (onePeer (sampleEngineAt 10 3 5) (advertised 10 1 False None))
      = (None, [], onePeer (sampleEngineAt 10 3 5) (advertised 10 1 False None))"
  by (simp add: sample_defs doSync_def Let_def setBlockPartsMask_def newBitArray_def)

subsection \<open>A peer in the same round\<close>

text \<open>
  C5 (amended). For a peer with \<open>P.Sync\<close> true at the engine's height and round,
  while the engine step is earlier than commit: \<open>doSync\<close> passes flipped copies of
  \<open>P.PrevotesMask\<close> and \<open>P.PrecommitsMask\<close> to \<open>GetVotes\<close> for the current round; if
  the vote list is not empty it returns it as a VoteList and sets the peer's round state
  to nil; if it is empty it returns no message and changes nothing.
\<close>

theorem doSync_same_round:
  assumes "peerRoundState (peers s ! i) = Some a"
    and "Sync (heap s a)"
    and "peerRoundState.Height (heap s a) = Engine.Height E (engine s)"
    and "Step E (engine s) < stepCommit K"
    and "peerRoundState.Round (heap s a) = Engine.Round E (engine s)"
  shows "doSync E K X rnd i s =
           (let vl = GetVotes E (engine s) (Engine.Round E (engine s))
                       (bitArray_Flip (bitArray_Copy (PrevotesMask (heap s a))))
                       (bitArray_Flip (bitArray_Copy (PrecommitsMask (heap s a))))
            in if vl \<noteq> [] then
                 (Some (protoVoteList, VoteListMessage vl), [],
                  s\<lparr>peers := (peers s)[i := (peers s ! i)\<lparr>peerRoundState := None\<rparr>]\<rparr>)
               else (None, [], s))"
  using assms by (simp add: doSync_def Let_def clearRoundState_def word_sless_alt)

theorem doSync_same_round_witness:
  "doSync sampleEngine sampleSteps sampleCollab 0 0
       (onePeer (sampleEngineAt 5 2 3) (advertised 5 2 True None))
   = (Some (protoVoteList, VoteListMessage [Vote 11, Vote 12, Vote 13, Vote 20, Vote 21]), [],
      (onePeer (sampleEngineAt 5 2 3) (advertised 5 2 True None))
        \<lparr>peers := [\<lparr>peer_id = [1], wakeUpChan = False, running = True, peerRoundState = None\<rparr>]\<rparr>)"
  using doSync_same_round [of "onePeer (sampleEngineAt 5 2 3) (advertised 5 2 True None)"
      0 0 sampleEngine sampleSteps sampleCollab 0]
  by (simp add: sample_defs mask_eval)

text \<open>
  C5 as stated fails for a peer with \<open>P.Sync\<close> false (five votes are missing, nothing is
  returned) and at step commit, where the commit branch comes first.
\<close>

theorem doSync_same_round_counterexample:
  "peerRoundState.Height (advertised 5 2 False None) = Engine.Height sampleEngine (sampleEngineAt 5 2 3)
   \<and> peerRoundState.Round (advertised 5 2 False None) = Engine.Round sampleEngine (sampleEngineAt 5 2 3)
   \<and> GetVotes sampleEngine (sampleEngineAt 5 2 3) 2
        (bitArray_Flip (bitArray_Copy (PrevotesMask (advertised 5 2 False None))))
        (bitArray_Flip (bitArray_Copy (PrecommitsMask (advertised 5 2 False None))))
      = [Vote 11, Vote 12, Vote 13, Vote 20, Vote 21]
   \<and> doSync sampleEngine sampleSteps sampleCollab 0 0
        (onePeer (sampleEngineAt 5 2 3) (advertised 5 2 False None))
      = (None, [], onePeer (sampleEngineAt 5 2 3) (advertised 5 2 False None))
   \<and> peerRoundState.Height (advertised 5 2 True None) = Engine.Height sampleEngine (sampleEngineAt 5 2 6)
   \<and> peerRoundState.Round (advertised 5 2 True None) = Engine.Round sampleEngine (sampleEngineAt 5 2 6)
   \<and> doSync sampleEngine sampleSteps sampleCollab 0 0
        (onePeer (sampleEngineAt 5 2 6) (advertised 5 2 True None))
      = (Some (protoVoteList, VoteListMessage [Vote 7, Vote 8, Vote 9]), [],
         (onePeer (sampleEngineAt 5 2 6) (advertised 5 2 True None))
           \<lparr>heap := (\<lambda>a. advertised 5 2 True None)
                      (0 := advertised 5 2 True (Some [False, False, False]))\<rparr>)"
  by (simp add: sample_defs doSync_def Let_def setBlockPartsMask_def mask_eval)

subsection \<open>What \<open>doSync\<close> leaves alone\<close>

text \<open>
  C10. A call of \<open>doSync\<close> for the peer at position \<open>i\<close> changes at most that peer's
  round-state pointer, the block-parts mask of the object it points to, and the
  fast-sync cancel handle: the engine, the timer, the last-send timestamp, the running
  flag, the length of the peer list, every other peer's record, this peer's id, wake-up
  channel and running flag, every heap object the peer does not point to, and every
  field but the block-parts mask of the one it points to are as before.
\<close>

theorem doSync_frame:
  "(case doSync E K X rnd i s of (r, fx, s') \<Rightarrow>
      engine s' = engine s \<and> timer s' = timer s \<and> lastSendTime s' = lastSendTime s
      \<and> syncer.running s' = syncer.running s \<and> nextAddr s' = nextAddr s
      \<and> length (peers s') = length (peers s)
      \<and> (\<forall>j. j \<noteq> i \<longrightarrow> peers s' ! j = peers s ! j)
      \<and> peer_id (peers s' ! i) = peer_id (peers s ! i)
      \<and> wakeUpChan (peers s' ! i) = wakeUpChan (peers s ! i)
      \<and> peer.running (peers s' ! i) = peer.running (peers s ! i)
      \<and> (\<forall>b. peerRoundState (peers s ! i) \<noteq> Some b \<longrightarrow> heap s' b = heap s b)
      \<and> (\<forall>b. heap s' b = (heap s b)\<lparr>BlockPartsMask := BlockPartsMask (heap s' b)\<rparr>))"
proof -
  obtain r fx s' where d: "doSync E K X rnd i s = (r, fx, s')"
    by (cases "doSync E K X rnd i s") auto
  have upd: "peer_id (xs[i := (xs ! i)\<lparr>peerRoundState := None\<rparr>] ! i) = peer_id (xs ! i)
     \<and> wakeUpChan (xs[i := (xs ! i)\<lparr>peerRoundState := None\<rparr>] ! i) = wakeUpChan (xs ! i)
     \<and> peer.running (xs[i := (xs ! i)\<lparr>peerRoundState := None\<rparr>] ! i) = peer.running (xs ! i)"
    for xs :: "peer list"
    by (cases "i < length xs") (simp_all add: list_update_beyond)
  from doSync_outcome [OF d]
  consider "s' = s"
    | a m where "peerRoundState (peers s ! i) = Some a" "s' = setBlockPartsMask a m s"
    | c where "s' = s\<lparr>fetchCanceler := c\<rparr>"
    | "s' = clearRoundState i s"
    by blast
  then have "engine s' = engine s \<and> timer s' = timer s \<and> lastSendTime s' = lastSendTime s
      \<and> syncer.running s' = syncer.running s \<and> nextAddr s' = nextAddr s
      \<and> length (peers s') = length (peers s)
      \<and> (\<forall>j. j \<noteq> i \<longrightarrow> peers s' ! j = peers s ! j)
      \<and> peer_id (peers s' ! i) = peer_id (peers s ! i)
      \<and> wakeUpChan (peers s' ! i) = wakeUpChan (peers s ! i)
      \<and> peer.running (peers s' ! i) = peer.running (peers s ! i)
      \<and> (\<forall>b. peerRoundState (peers s ! i) \<noteq> Some b \<longrightarrow> heap s' b = heap s b)
      \<and> (\<forall>b. heap s' b = (heap s b)\<lparr>BlockPartsMask := BlockPartsMask (heap s' b)\<rparr>)"
  proof cases
    case 1
    then show ?thesis by simp
  next
    case 2
    then show ?thesis by (simp add: setBlockPartsMask_def)
  next
    case 3
    then show ?thesis by simp
  next
    case 4
    then show ?thesis using upd [of "peers s"] by (simp add: clearRoundState_def)
  qed
  then show ?thesis by (simp add: d)
qed

theorem doSync_frame_witness:
  "(case doSync sampleEngine sampleSteps sampleCollab 0 0
          (onePeer (sampleEngineAt 10 3 4) (advertised 10 1 True None)) of
      (r, fx, s') \<Rightarrow>
        r = Some (protoVoteList, VoteListMessage [Vote 2])
        \<and> engine s' = sampleEngineAt 10 3 4 \<and> timer s' = None \<and> lastSendTime s' = 0
        \<and> syncer.running s' \<and> nextAddr s' = 1 \<and> length (peers s') = 1
        \<and> peer_id (peers s' ! 0) = [1] \<and> \<not> wakeUpChan (peers s' ! 0)
        \<and> peer.running (peers s' ! 0)
        \<and> heap s' 1 = advertised 10 1 True None)"
  using doSync_frame [where E = sampleEngine and K = sampleSteps and X = sampleCollab
      and rnd = 0 and i = 0 and s = "onePeer (sampleEngineAt 10 3 4) (advertised 10 1 True None)"]
  by (simp add: sample_defs doSync_def Let_def clearRoundState_def)

subsection \<open>A block part is sent at most once\<close>




text \<open>A block part returned by \<open>doSync\<close> has an index whose bit was clear in the
  peer's mask and set in the part set's mask, and the bit is set in the peer's mask
  afterwards.\<close>

lemma doSync_part_bit:
  assumes "doSync E K X rnd i s = (Some (sp, BlockPartMessage m), fx, s')"
    and "length (GetMask (GetCommitBlockParts E (engine s) (blockPartMessage.Height m))) \<le> 65536"
  shows "\<exists>a bpm. peerRoundState (peers s ! i) = Some a
           \<and> blockPartMessage.Height m = peerRoundState.Height (heap s a)
           \<and> BlockPartsMask (heap s a) = Some bpm
           \<and> \<not> bitArray_Get bpm (Index m)
           \<and> bitArray_Get (GetMask (GetCommitBlockParts E (engine s) (blockPartMessage.Height m))) (Index m)
           \<and> BlockPartsMask (heap s' a) = Some (bitArray_Set bpm (Index m))
           \<and> bitArray_Get (bitArray_Set bpm (Index m)) (Index m)"
proof -
  from doSync_outcome [OF assms(1)]
  obtain a bpm where ptr: "peerRoundState (peers s ! i) = Some a"
    and mask: "BlockPartsMask (heap s a) = Some bpm"
    and pick: "\<not> bitArray_PickRandom rnd (bitArray_AssignAnd (bitArray_Flip (bitArray_Copy bpm))
                 (GetMask (GetCommitBlockParts E (engine s) (peerRoundState.Height (heap s a))))) < 0"
    and h: "blockPartMessage.Height m = peerRoundState.Height (heap s a)"
    and ix: "Index m = uint16 (bitArray_PickRandom rnd (bitArray_AssignAnd (bitArray_Flip (bitArray_Copy bpm))
                 (GetMask (GetCommitBlockParts E (engine s) (peerRoundState.Height (heap s a))))))"
    and s': "s' = setBlockPartsMask a (bitArray_Set bpm
                 (bitArray_PickRandom rnd (bitArray_AssignAnd (bitArray_Flip (bitArray_Copy bpm))
                 (GetMask (GetCommitBlockParts E (engine s) (peerRoundState.Height (heap s a))))))) s"
    by auto
  define idx where "idx = bitArray_PickRandom rnd (bitArray_AssignAnd (bitArray_Flip (bitArray_Copy bpm))
                 (GetMask (GetCommitBlockParts E (engine s) (peerRoundState.Height (heap s a)))))"
  have got: "bitArray_Get (bitArray_AssignAnd (bitArray_Flip (bitArray_Copy bpm))
            (GetMask (GetCommitBlockParts E (engine s) (peerRoundState.Height (heap s a))))) idx"
    using pick PickRandom_picks unfolding idx_def by blast
  from Get_missing [OF this]
  have idx: "0 \<le> idx" "nat idx < length bpm" "\<not> bpm ! nat idx"
    and inset: "nat idx < length (GetMask (GetCommitBlockParts E (engine s)
                                (peerRoundState.Height (heap s a))))"
    by simp_all
  have avail: "bitArray_Get (GetMask (GetCommitBlockParts E (engine s)
                                (peerRoundState.Height (heap s a)))) idx"
    using got idx
    by (auto simp add: bitArray_Get_def bitArray_AssignAnd_def bitArray_Flip_def bitArray_Copy_def)
  have "nat idx < 65536" using inset assms(2) h by simp
  with idx(1) have u: "Index m = idx" using ix uint16_id [of idx] by (simp add: idx_def)
  have "BlockPartsMask (heap s' a) = Some (bitArray_Set bpm idx)"
    by (simp add: s' setBlockPartsMask_def idx_def)
  then show ?thesis
    using ptr mask h u idx avail Get_Set_same [of idx bpm]
    by (simp add: bitArray_Get_def)
qed



text \<open>
  What delimits such a run: a RoundState message from the peer makes its pointer refer
  to a new object that holds the advertised round state (mask included), and a message
  from another peer leaves the pointer and the object alone.
\<close>

lemma OnReceive_round_state:
  assumes "syncer.running s" and "unmarshalMessage X sp bs = Inr (RoundStateMessage prs)"
    and "verify X (RoundStateMessage prs) = None"
    and "i < length (peers s)" and "peer_id (peers s ! i) = pid"
  shows "case OnReceive E X sp bs pid s of
           (r, fx, s') \<Rightarrow>
             r = (True, None) \<and> peerRoundState (peers s' ! i) = Some (nextAddr s)
             \<and> heap s' (nextAddr s) = prs \<and> wakeUpChan (peers s' ! i)"
  using assms by (simp add: OnReceive_def Let_def setRoundState_def wakeUp_def)

lemma OnReceive_other_peer:
  assumes "i < length (peers s)" and "peer_id (peers s ! i) \<noteq> pid"
    and "peerRoundState (peers s ! i) = Some a" and "a < nextAddr s"
  shows "case OnReceive E X sp bs pid s of
           (r, fx, s') \<Rightarrow> peerRoundState (peers s' ! i) = Some a \<and> heap s' a = heap s a"
  using assms
  by (auto simp add: OnReceive_def Let_def wakeForPart_def wakeUp_def
      split: sum.split option.split message.split prod.split)

subsection \<open>Engine step changes\<close>




subsection \<open>Callbacks after \<open>Stop\<close>\<close>

text \<open>
  C9. \<open>Stop\<close> clears the running flag, and while the flag is false each of
  \<open>OnReceive\<close>, \<open>OnFailure\<close>, \<open>OnJoin\<close>, \<open>OnLeave\<close>, \<open>OnBlock\<close> and \<open>OnEnd\<close> leaves the
  state (peers, cancel handle, engine) as it is and makes no external call; \<open>OnReceive\<close>
  returns \<open>(false, nil)\<close>.
\<close>

theorem callbacks_after_Stop:
  "\<not> syncer.running (snd (Stop s))
   \<and> (\<not> syncer.running t \<longrightarrow>
         OnReceive E X sp bs pid t = ((False, None), [], t)
         \<and> OnFailure err sp bs t = t
         \<and> OnJoin E X pid t = Some ([], t)
         \<and> OnLeave pid t = ([], t)
         \<and> OnBlock E br t = t
         \<and> OnEnd err' t = t)"
  by (simp add: Stop_def OnReceive_def OnFailure_def OnJoin_def OnLeave_def OnBlock_def OnEnd_def)

theorem callbacks_after_Stop_witness:
  "snd (Stop (onePeer (sampleEngineAt 10 0 6) (advertised 10 0 True None)))
     = (onePeer (sampleEngineAt 10 0 6) (advertised 10 0 True None))
         \<lparr>peers := [\<lparr>peer_id = [1], wakeUpChan = True, running = False, peerRoundState = Some 0\<rparr>],
          running := False\<rparr>
   \<and> OnReceive sampleEngine sampleCollab protoVoteList [3] [1]
        (snd (Stop (onePeer (sampleEngineAt 10 0 6) (advertised 10 0 True None))))
      = ((False, None), [], snd (Stop (onePeer (sampleEngineAt 10 0 6) (advertised 10 0 True None))))
   \<and> OnJoin sampleEngine sampleCollab [2]
        (snd (Stop (onePeer (sampleEngineAt 10 0 6) (advertised 10 0 True None))))
      = Some ([], snd (Stop (onePeer (sampleEngineAt 10 0 6) (advertised 10 0 True None))))
   \<and> OnLeave [1] (snd (Stop (onePeer (sampleEngineAt 10 0 6) (advertised 10 0 True None))))
      = ([], snd (Stop (onePeer (sampleEngineAt 10 0 6) (advertised 10 0 True None))))
   \<and> OnBlock sampleEngine (BlockResult (Block 10))
        (snd (Stop (onePeer (sampleEngineAt 10 0 6) (advertised 10 0 True None))))
      = snd (Stop (onePeer (sampleEngineAt 10 0 6) (advertised 10 0 True None)))
   \<and> OnEnd None (snd (Stop (onePeer (sampleEngineAt 10 0 6) (advertised 10 0 True None))))
      = snd (Stop (onePeer (sampleEngineAt 10 0 6) (advertised 10 0 True None)))"
  using callbacks_after_Stop [where s = "onePeer (sampleEngineAt 10 0 6) (advertised 10 0 True None)"
      and t = "snd (Stop (onePeer (sampleEngineAt 10 0 6) (advertised 10 0 True None)))"
      and E = sampleEngine and X = sampleCollab and sp = protoVoteList and bs = "[3]"
      and pid = "[1]" and br = "BlockResult (Block 10)" and err' = None]
    callbacks_after_Stop [where s = "onePeer (sampleEngineAt 10 0 6) (advertised 10 0 True None)"
      and t = "snd (Stop (onePeer (sampleEngineAt 10 0 6) (advertised 10 0 True None)))"
      and E = sampleEngine and X = sampleCollab and pid = "[2]"]
  by (simp add: Stop_def peer_stop_def wakeUp_def onePeer_def)

subsection \<open>Rejections by the engine in \<open>OnReceive\<close>\<close>

text \<open>
  C7. The claim says that a vote the engine rejects aborts the message and that the
  error is returned. \<open>OnReceive\<close> drops what \<open>ReceiveVoteMessage\<close> returns: for the vote
  list \<open>[Vote 0, Vote 3]\<close>, whose first vote the sample engine rejects, the second vote is
  still delivered and \<open>OnReceive\<close> returns \<open>(true, nil)\<close>.
\<close>

theorem OnReceive_vote_rejection_ignored:
  "ReceiveVoteMessage sampleEngine (sampleEngineAt 10 0 3) (Vote 0) True
     = ((- 1, Some (Error ''bad voter'')), sampleEngineAt 10 0 3)
   \<and> OnReceive sampleEngine sampleCollab protoVoteList [0, 3] [1]
        (onePeer (sampleEngineAt 10 0 3) (advertised 10 0 True None))
      = ((True, None), [],
         (onePeer (sampleEngineAt 10 0 3) (advertised 10 0 True None))
           \<lparr>engine := (sampleEngineAt 10 0 3)\<lparr>s_votes := [Vote 3]\<rparr>\<rparr>)"
  by (simp add: sample_defs OnReceive_def)

text \<open>The other parts of the claim hold: a decode or verification failure is returned
  and changes nothing, and the error of a rejected block part is returned.\<close>

lemma OnReceive_decode_error:
  "syncer.running s \<Longrightarrow> unmarshalMessage X sp bs = Inl err
   \<Longrightarrow> OnReceive E X sp bs pid s = ((False, Some err), [], s)"
  by (simp add: OnReceive_def)

lemma OnReceive_verify_error:
  "syncer.running s \<Longrightarrow> unmarshalMessage X sp bs = Inr msg \<Longrightarrow> verify X msg = Some err
   \<Longrightarrow> OnReceive E X sp bs pid s = ((False, Some err), [], s)"
  by (simp add: OnReceive_def)

lemma OnReceive_part_rejected:
  "syncer.running s \<Longrightarrow> unmarshalMessage X sp bs = Inr (BlockPartMessage m)
   \<Longrightarrow> verify X (BlockPartMessage m) = None
   \<Longrightarrow> ReceiveBlockPartMessage E (engine s) m True = ((idx, Some err), e')
   \<Longrightarrow> fst (OnReceive E X sp bs pid s) = (False, Some err)
       \<and> (idx < 0 \<longrightarrow> snd (OnReceive E X sp bs pid s) = ([], s\<lparr>engine := e'\<rparr>))"
  by (simp add: OnReceive_def Let_def)

subsection \<open>Bandwidth pacing\<close>

lemma wrap64_id: "- (2 ^ 63) \<le> x \<Longrightarrow> x < 2 ^ 63 \<Longrightarrow> wrap64 x = x"
  by (simp add: wrap64_def)

lemma go_div_nonneg: "0 \<le> a \<Longrightarrow> 0 < b \<Longrightarrow> go_div a b = a div b"
  by (simp add: go_div_def)

lemma delta_exact:
  assumes "0 < bps" and "Second * n < 2 ^ 63" and "0 \<le> n"
  shows "wrap64 (go_div (wrap64 (Second * n)) bps) = (1000000000 * n) div bps"
proof -
  have nn: "0 \<le> Second * n" using assms(3) by (simp add: Second_def)
  have w: "wrap64 (Second * n) = Second * n"
    using nn assms(2) by (intro wrap64_id) auto
  have d: "go_div (Second * n) bps = (Second * n) div bps"
    using nn assms(1) by (rule go_div_nonneg)
  have lo: "0 \<le> (Second * n) div bps"
    using nn assms(1) by (simp add: pos_imp_zdiv_nonneg_iff)
  have "(Second * n) div bps \<le> Second * n"
    using zdiv_mono2 [of "Second * n" 1 bps] nn assms(1) by simp
  with assms(2) have hi: "(Second * n) div bps < 2 ^ 63" by linarith
  have "wrap64 ((Second * n) div bps) = (Second * n) div bps"
    using lo hi by (intro wrap64_id) auto
  with w d show ?thesis by (simp add: Second_def)
qed

lemma time_Sub_pos: "(0 < time_Sub t u) = (u < t)"
  by (auto simp add: time_Sub_def)

text \<open>
  C8 (amended). In a turn of the send loop that sends a message of B bytes: with a
  positive cap (and \<open>10^9 * B\<close> within \<open>int64\<close>), the next permissible send time becomes
  the previous one plus \<open>10^9 * B div cap\<close> nanoseconds, where the previous one is now only
  if none is recorded (the first send, or the last turn sent nothing); a recorded time
  that has already passed is not reset. The peer wakes itself after the remaining time,
  or at once if none remains. With a negative cap the peer wakes itself at once after
  every send and records no time.
\<close>

theorem peer_sync_pacing:
  assumes "wakeUpChan (peers s ! i)"
    and "peer.running (peers s ! i)"
    and "case nextSendTime of None \<Rightarrow> True | Some t \<Rightarrow> t \<le> now"
    and "doSync E K X rnd i (s\<lparr>peers := (peers s)[i := (peers s ! i)\<lparr>wakeUpChan := False\<rparr>]\<rparr>)
           = (Some (proto, msg), fx, s1)"
    and "MarshalToBytes X msg = Inr msgBS"
  shows "(0 < bps \<and> 1000000000 * int (length msgBS) < 2 ^ 63 \<longrightarrow>
            peer_sync_iter E K X bps now rnd i nextSendTime s =
              (let next = (case nextSendTime of None \<Rightarrow> now | Some t \<Rightarrow> t)
                            + (1000000000 * int (length msgBS)) div bps
               in if now < next then
                    Some (Continue, Some next,
                          fx @ [Unicast proto msgBS (peer_id (peers s ! i)),
                                WakeAfter (time_Sub next now) (peer_id (peers s ! i))], s1)
                  else
                    Some (Continue, Some next,
                          fx @ [Unicast proto msgBS (peer_id (peers s ! i))],
                          s1\<lparr>peers := (peers s1)[i := (peers s1 ! i)\<lparr>wakeUpChan := True\<rparr>]\<rparr>)))
     \<and> (bps < 0 \<longrightarrow>
            peer_sync_iter E K X bps now rnd i nextSendTime s =
              Some (Continue, nextSendTime, fx @ [Unicast proto msgBS (peer_id (peers s ! i))],
                    s1\<lparr>peers := (peers s1)[i := (peers s1 ! i)\<lparr>wakeUpChan := True\<rparr>]\<rparr>))"
proof -
  have early: "\<not> (case nextSendTime of None \<Rightarrow> False | Some t \<Rightarrow> time_Before now t)"
    using assms(3) by (cases nextSendTime) (simp_all add: time_Before_def)
  have neg: "peer_sync_iter E K X bps now rnd i nextSendTime s =
              Some (Continue, nextSendTime, fx @ [Unicast proto msgBS (peer_id (peers s ! i))],
                    s1\<lparr>peers := (peers s1)[i := (peers s1 ! i)\<lparr>wakeUpChan := True\<rparr>]\<rparr>)"
    if "bps < 0"
    using that assms(1,2,4,5) early
    by (simp add: peer_sync_iter_def Let_def wakeUpAt_def wakeUp_def)
  have pos: "peer_sync_iter E K X bps now rnd i nextSendTime s =
              (let next = (case nextSendTime of None \<Rightarrow> now | Some t \<Rightarrow> t)
                            + (1000000000 * int (length msgBS)) div bps
               in if now < next then
                    Some (Continue, Some next,
                          fx @ [Unicast proto msgBS (peer_id (peers s ! i)),
                                WakeAfter (time_Sub next now) (peer_id (peers s ! i))], s1)
                  else
                    Some (Continue, Some next,
                          fx @ [Unicast proto msgBS (peer_id (peers s ! i))],
                          s1\<lparr>peers := (peers s1)[i := (peers s1 ! i)\<lparr>wakeUpChan := True\<rparr>]\<rparr>))"
    if "0 < bps" and "1000000000 * int (length msgBS) < 2 ^ 63"
  proof -
    have d: "wrap64 (go_div (wrap64 (Second * int (length msgBS))) bps)
               = (1000000000 * int (length msgBS)) div bps"
      using that by (intro delta_exact) (simp_all add: Second_def)
    show ?thesis
      using that(1) assms(1,2,4,5) early
      by (simp add: peer_sync_iter_def Let_def wakeUpAt_def wakeUp_def d time_Sub_pos)
  qed
  from neg pos show ?thesis by blast
qed

theorem peer_sync_pacing_witness:
  "map_option (\<lambda>(c, n, fx, s'). (c, n, fx))
     (peer_sync_iter sampleEngine sampleSteps sampleCollab 1000 5000000000 0 0 None
        (wakeUpAt 0 (onePeer (sampleEngineAt 10 0 6) (advertised 10 0 True None))))
   = Some (Continue, Some 5100000000,
           [Unicast protoVoteList (replicate 100 0) [1], WakeAfter 100000000 [1]])
   \<and> map_option (\<lambda>(c, n, fx, s'). (c, n, fx, map wakeUpChan (peers s')))
     (peer_sync_iter sampleEngine sampleSteps sampleCollab configSendBPS 5000000000 0 0 None
        (wakeUpAt 0 (onePeer (sampleEngineAt 10 0 6) (advertised 10 0 True None))))
   = Some (Continue, None, [Unicast protoVoteList (replicate 100 0) [1]], [True])"
  using peer_sync_pacing [where E = sampleEngine and K = sampleSteps and X = sampleCollab
      and bps = 1000 and now = 5000000000 and rnd = 0 and i = 0 and nextSendTime = None
      and s = "wakeUpAt 0 (onePeer (sampleEngineAt 10 0 6) (advertised 10 0 True None))"
      and proto = protoVoteList and msg = "VoteListMessage [Vote 7, Vote 8, Vote 9]"
      and fx = "[]" and msgBS = "replicate 100 0"
      and ?s1.0 = "(onePeer (sampleEngineAt 10 0 6) (advertised 10 0 True None))
        \<lparr>heap := (\<lambda>a. advertised 10 0 True None)
                   (0 := advertised 10 0 True (Some [False, False, False]))\<rparr>"]
    peer_sync_pacing [where E = sampleEngine and K = sampleSteps and X = sampleCollab
      and bps = configSendBPS and now = 5000000000 and rnd = 0 and i = 0 and nextSendTime = None
      and s = "wakeUpAt 0 (onePeer (sampleEngineAt 10 0 6) (advertised 10 0 True None))"
      and proto = protoVoteList and msg = "VoteListMessage [Vote 7, Vote 8, Vote 9]"
      and fx = "[]" and msgBS = "replicate 100 0"
      and ?s1.0 = "(onePeer (sampleEngineAt 10 0 6) (advertised 10 0 True None))
        \<lparr>heap := (\<lambda>a. advertised 10 0 True None)
                   (0 := advertised 10 0 True (Some [False, False, False]))\<rparr>"]
  by (simp add: sample_defs doSync_def Let_def setBlockPartsMask_def newBitArray_def
      wakeUpAt_def wakeUp_def configSendBPS_def time_Sub_def)

text \<open>
  C8 as stated fails in its reset: the recorded next time 0 has passed at \<open>now\<close> (5 s), and after
  a send of 100 bytes at 1000 bytes per second the next time is 0.1 s, not 5.1 s.
\<close>

theorem peer_sync_pacing_counterexample:
  "wakeUpChan (peers (wakeUpAt 0 (onePeer (sampleEngineAt 10 0 6) (advertised 10 0 True None))) ! 0)
   \<and> peer.running (peers (wakeUpAt 0 (onePeer (sampleEngineAt 10 0 6) (advertised 10 0 True None))) ! 0)
   \<and> (0 :: int) < 5000000000
   \<and> map_option (\<lambda>(c, n, fx, s'). (c, n, fx, map wakeUpChan (peers s')))
        (peer_sync_iter sampleEngine sampleSteps sampleCollab 1000 5000000000 0 0 (Some 0)
           (wakeUpAt 0 (onePeer (sampleEngineAt 10 0 6) (advertised 10 0 True None))))
      = Some (Continue, Some 100000000, [Unicast protoVoteList (replicate 100 0) [1]], [True])
   \<and> (100000000 :: int) \<noteq> 5000000000 + (1000000000 * 100) div 1000"
  by (simp add: sample_defs peer_sync_iter_def doSync_def Let_def setBlockPartsMask_def
      newBitArray_def wakeUpAt_def wakeUp_def time_Sub_def time_Before_def wrap64_def go_div_def
      Second_def)

end
